theory Spec2Isabelle
  imports Main "HOL-Library.AList"
begin

section \<open>Values decoded from JSON and Python errors\<close>

text \<open>
  \<^verbatim>\<open>json.loads\<close> turns a response into Python values: \<^verbatim>\<open>None\<close>, booleans, numbers,
  strings, lists and dictionaries with string keys. A dictionary is an association list
  read with \<open>map_of\<close>. Python's \<^verbatim>\<open>None\<close> is \<open>JNull\<close>. Numbers are integers here: the
  parsers below never compute with a number, they only store it or test it for truth.
\<close>

datatype json =
    JNull
  | JBool bool
  | JNum int
  | JStr string
  | JList "json list"
  | JDict "(string \<times> json) list"

type_synonym dict = "(string \<times> json) list"

text \<open>
  The exceptions the parsers can meet. \<open>KeyError\<close> carries the missing key, as Python's
  does. \<open>Raised\<close> stands for whatever else a callable of another module raises.
\<close>

datatype py_error =
    KeyError string
  | TypeError
  | ValueError
  | Raised string

text \<open>Sequencing of computations that may raise: the first error ends the evaluation.\<close>

definition bind :: "py_error + 'a \<Rightarrow> ('a \<Rightarrow> py_error + 'b) \<Rightarrow> py_error + 'b" where
  "bind r f = (case r of Inl e \<Rightarrow> Inl e | Inr v \<Rightarrow> f v)"

text \<open>\<^verbatim>\<open>key in json_dict\<close>\<close>

definition dict_contains :: "dict \<Rightarrow> string \<Rightarrow> bool" where
  "dict_contains json_dict key = (map_of json_dict key \<noteq> None)"

text \<open>\<^verbatim>\<open>json_dict.get(key, None)\<close>: never raises.\<close>

definition dict_get :: "dict \<Rightarrow> string \<Rightarrow> json" where
  "dict_get json_dict key = (case map_of json_dict key of None \<Rightarrow> JNull | Some v \<Rightarrow> v)"

text \<open>\<^verbatim>\<open>json_dict[key]\<close>: raises \<^verbatim>\<open>KeyError(key)\<close> when the key is absent.\<close>

definition dict_subscript :: "dict \<Rightarrow> string \<Rightarrow> py_error + json" where
  "dict_subscript json_dict key =
     (case map_of json_dict key of None \<Rightarrow> Inl (KeyError key) | Some v \<Rightarrow> Inr v)"

text \<open>Python's truth value of a decoded value, as \<^verbatim>\<open>x if cond else y\<close> tests it.\<close>

fun truthy :: "json \<Rightarrow> bool" where
  "truthy JNull = False"
| "truthy (JBool b) = b"
| "truthy (JNum n) = (n \<noteq> 0)"
| "truthy (JStr s) = (s \<noteq> [])"
| "truthy (JList xs) = (xs \<noteq> [])"
| "truthy (JDict kvs) = (kvs \<noteq> [])"

text \<open>
  \<^verbatim>\<open>for x in v\<close>: a list yields its elements, a dictionary its keys, a string its
  characters; \<^verbatim>\<open>None\<close>, a boolean and a number are not iterable (\<^verbatim>\<open>TypeError\<close>).
\<close>

fun py_iter :: "json \<Rightarrow> py_error + json list" where
  "py_iter (JList xs) = Inr xs"
| "py_iter (JDict kvs) = Inr (map JStr (remdups (map fst kvs)))"
| "py_iter (JStr s) = Inr (map (\<lambda>c. JStr [c]) s)"
| "py_iter JNull = Inl TypeError"
| "py_iter (JBool b) = Inl TypeError"
| "py_iter (JNum n) = Inl TypeError"

text \<open>A list comprehension \<^verbatim>\<open>[f(x) for x in xs]\<close>: left to right, the first error ends it.\<close>

primrec comprehension :: "('a \<Rightarrow> py_error + 'b) \<Rightarrow> 'a list \<Rightarrow> py_error + 'b list" where
  "comprehension f [] = Inr []"
| "comprehension f (x # xs) =
     bind (f x) (\<lambda>y. bind (comprehension f xs) (\<lambda>ys. Inr (y # ys)))"

section \<open>ravendb/documents/operations/statistics.py\<close>

text \<open>
  The module calls seven callables that other modules define: the enum classes
  \<^verbatim>\<open>IndexLockMode\<close>, \<^verbatim>\<open>IndexPriority\<close>, \<^verbatim>\<open>IndexType\<close>, \<^verbatim>\<open>IndexSourceType\<close> and
  \<^verbatim>\<open>IndexState\<close> (\<^verbatim>\<open>ravendb.documents.indexes.definitions\<close>), and
  \<^verbatim>\<open>Utils.string_to_datetime\<close> and \<^verbatim>\<open>Size.from_json\<close> (\<^verbatim>\<open>ravendb.tools.utils\<close>).
  They are parameters of the model: each takes a decoded value and returns an object
  of type \<open>'x\<close> or \<^verbatim>\<open>None\<close>, or raises.
\<close>

record 'x externals =
  IndexLockMode :: "json \<Rightarrow> py_error + 'x option"
  IndexPriority :: "json \<Rightarrow> py_error + 'x option"
  IndexType :: "json \<Rightarrow> py_error + 'x option"
  IndexSourceType :: "json \<Rightarrow> py_error + 'x option"
  IndexState :: "json \<Rightarrow> py_error + 'x option"
  string_to_datetime :: "json \<Rightarrow> py_error + 'x option"
  Size_from_json :: "json \<Rightarrow> py_error + 'x option"

text \<open>
  \<^verbatim>\<open>class IndexInformation\<close>: the attributes set by \<^verbatim>\<open>__init__\<close>, under the names of
  its parameters. An attribute that holds a decoded value has type \<open>json\<close>, with
  \<open>JNull\<close> for \<^verbatim>\<open>None\<close>; one that holds the result of a callable has type \<open>'x option\<close>,
  with \<open>None\<close> for \<^verbatim>\<open>None\<close>.
\<close>

record 'x IndexInformation =
  stale :: json
  lock_mode :: "'x option"
  priority :: "'x option"
  index_type :: "'x option"
  last_indexing_time :: "'x option"
  source_type :: "'x option"
  index_state :: "'x option"
  name :: json

text \<open>
  The pattern \<^verbatim>\<open>F(json_dict[key]) if key in json_dict else None\<close> of
  \<^verbatim>\<open>IndexInformation.from_json\<close>.
\<close>

definition guarded :: "(json \<Rightarrow> py_error + 'x option) \<Rightarrow> dict \<Rightarrow> string \<Rightarrow> py_error + 'x option" where
  "guarded F json_dict key =
     (if dict_contains json_dict key then bind (dict_subscript json_dict key) F else Inr None)"

text \<open>
  \<^verbatim>\<open>IndexInformation.from_json\<close> (lines 184-195). Python evaluates the arguments
  of \<^verbatim>\<open>cls(...)\<close> from left to right. The argument is any decoded value, since
  \<^verbatim>\<open>DatabaseStatistics.from_json\<close> passes the elements of \<^verbatim>\<open>json_dict["Indexes"]\<close>
  unchecked: on a value that is not a dictionary either \<^verbatim>\<open>"IsStale" in json_dict\<close>
  raises \<^verbatim>\<open>TypeError\<close> (\<^verbatim>\<open>None\<close>, a boolean, a number) or the first subscript with a
  string does (a list, a string).
\<close>

fun IndexInformation_from_json :: "'x externals \<Rightarrow> json \<Rightarrow> py_error + 'x IndexInformation" where
  "IndexInformation_from_json ext (JDict json_dict) =
     bind (if dict_contains json_dict ''IsStale'' then dict_subscript json_dict ''IsStale''
           else Inr JNull) (\<lambda>a1.
     bind (bind (dict_subscript json_dict ''LockMode'') (IndexLockMode ext)) (\<lambda>a2.
     bind (guarded (IndexPriority ext) json_dict ''Priority'') (\<lambda>a3.
     bind (guarded (IndexType ext) json_dict ''Type'') (\<lambda>a4.
     bind (guarded (string_to_datetime ext) json_dict ''LastIndexingTime'') (\<lambda>a5.
     bind (guarded (IndexSourceType ext) json_dict ''SourceType'') (\<lambda>a6.
     bind (guarded (IndexState ext) json_dict ''State'') (\<lambda>a7.
     bind (if dict_contains json_dict ''Name'' then dict_subscript json_dict ''Name''
           else Inr JNull) (\<lambda>a8.
     Inr \<lparr>stale = a1, lock_mode = a2, priority = a3, index_type = a4,
          last_indexing_time = a5, source_type = a6, index_state = a7, name = a8\<rparr>))))))))"
| "IndexInformation_from_json ext _ = Inl TypeError"

text \<open>\<^verbatim>\<open>class DatabaseStatistics\<close>: the 21 attributes set by \<^verbatim>\<open>__init__\<close>.\<close>

record 'x DatabaseStatistics =
  last_doc_etag :: json
  last_database_etag :: json
  count_of_indexes :: json
  count_of_documents :: json
  count_of_revision_documents :: json
  count_of_documents_conflicts :: json
  count_of_tombstones :: json
  count_of_conflicts :: json
  count_of_attachments :: json
  count_of_unique_attachments :: json
  count_of_counter_entries :: json
  count_of_time_series_segments :: json
  indexes :: "'x IndexInformation list option"
  database_change_vector :: json
  database_id :: json
  is_64_bit :: json
  pager :: json
  last_indexing_time :: "'x option"
  size_on_disk :: "'x option"
  temp_buffers_size_on_disk :: "'x option"
  number_of_transaction_merger_queue_operations :: json

text \<open>
  The thirteenth argument of \<^verbatim>\<open>DatabaseStatistics.from_json\<close> (line 87):
  \<^verbatim>\<open>[IndexInformation.from_json(x) for x in json_dict["Indexes"]] if "Indexes" in json_dict else None\<close>.
\<close>

definition indexes_argument :: "'x externals \<Rightarrow> dict \<Rightarrow> py_error + 'x IndexInformation list option" where
  "indexes_argument ext json_dict =
     (if dict_contains json_dict ''Indexes''
      then bind (dict_subscript json_dict ''Indexes'') (\<lambda>v.
           bind (py_iter v) (\<lambda>xs.
           bind (comprehension (IndexInformation_from_json ext) xs) (\<lambda>infos. Inr (Some infos))))
      else Inr None)"

text \<open>
  The eighteenth argument (line 92):
  \<^verbatim>\<open>Utils.string_to_datetime(json_dict["LastIndexingTime"]) if json_dict.get("LastIndexingTime") else None\<close>.
  The guard is the truth value of the entry, not its presence.
\<close>

definition last_indexing_time_argument :: "'x externals \<Rightarrow> dict \<Rightarrow> py_error + 'x option" where
  "last_indexing_time_argument ext json_dict =
     (if truthy (dict_get json_dict ''LastIndexingTime'')
      then bind (dict_subscript json_dict ''LastIndexingTime'') (string_to_datetime ext)
      else Inr None)"

text \<open>
  \<^verbatim>\<open>DatabaseStatistics.from_json\<close> (lines 72-96). Of the 21 arguments, evaluated from
  left to right, seventeen are \<^verbatim>\<open>json_dict.get(key, None)\<close> and cannot raise; the other
  four are sequenced in the order of the source.
\<close>

definition DatabaseStatistics_from_json :: "'x externals \<Rightarrow> dict \<Rightarrow> py_error + 'x DatabaseStatistics" where
  "DatabaseStatistics_from_json ext json_dict =
     bind (indexes_argument ext json_dict) (\<lambda>a13.
     bind (last_indexing_time_argument ext json_dict) (\<lambda>a18.
     bind (Size_from_json ext (dict_get json_dict ''SizeOnDisk'')) (\<lambda>a19.
     bind (Size_from_json ext (dict_get json_dict ''TempBuffersSizeOnDisk'')) (\<lambda>a20.
     Inr \<lparr>last_doc_etag = dict_get json_dict ''LastDocEtag'',
          last_database_etag = dict_get json_dict ''LastDatabaseEtag'',
          count_of_indexes = dict_get json_dict ''CountOfIndexes'',
          count_of_documents = dict_get json_dict ''CountOfDocuments'',
          count_of_revision_documents = dict_get json_dict ''CountOfRevisionDocuments'',
          count_of_documents_conflicts = dict_get json_dict ''CountOfDocumentsConflicts'',
          count_of_tombstones = dict_get json_dict ''CountOfTombstones'',
          count_of_conflicts = dict_get json_dict ''CountOfConflicts'',
          count_of_attachments = dict_get json_dict ''CountOfAttachments'',
          count_of_unique_attachments = dict_get json_dict ''CountOfUniqueAttachments'',
          count_of_counter_entries = dict_get json_dict ''CountOfCounterEntries'',
          count_of_time_series_segments = dict_get json_dict ''CountOfTimeSeriesSegments'',
          indexes = a13,
          database_change_vector = dict_get json_dict ''DatabaseChangeVector'',
          database_id = dict_get json_dict ''DatabaseId'',
          is_64_bit = dict_get json_dict ''Is64Bit'',
          pager = dict_get json_dict ''Pager'',
          last_indexing_time = a18,
          size_on_disk = a19,
          temp_buffers_size_on_disk = a20,
          number_of_transaction_merger_queue_operations =
            dict_get json_dict ''NumberOfTransactionMergerQueueOperations''\<rparr>))))"

text \<open>
  \<^verbatim>\<open>class DetailedDatabaseStatistics(DatabaseStatistics)\<close>: three more attributes.
\<close>

record 'x DetailedDatabaseStatistics = "'x DatabaseStatistics" +
  count_of_identities :: json
  count_of_compare_exchange :: json
  count_of_compare_exchange_tombstones :: json

text \<open>
  \<^verbatim>\<open>DetailedDatabaseStatistics.from_json\<close> (lines 254-265): the base parser first; then
  \<^verbatim>\<open>cls()\<close> makes an object whose attributes are all \<^verbatim>\<open>None\<close>, \<^verbatim>\<open>__dict__.update\<close> copies
  the 21 base attributes into it, and three subscripts, in this order, fill the rest.
\<close>

definition DetailedDatabaseStatistics_from_json ::
  "'x externals \<Rightarrow> dict \<Rightarrow> py_error + 'x DetailedDatabaseStatistics" where
  "DetailedDatabaseStatistics_from_json ext json_dict =
     bind (DatabaseStatistics_from_json ext json_dict) (\<lambda>database_stats.
     bind (dict_subscript json_dict ''CountOfIdentities'') (\<lambda>i.
     bind (dict_subscript json_dict ''CountOfCompareExchange'') (\<lambda>c.
     bind (dict_subscript json_dict ''CountOfCompareExchangeTombstones'') (\<lambda>t.
     Inr (DatabaseStatistics.extend database_stats
            \<lparr>count_of_identities = i, count_of_compare_exchange = c,
             count_of_compare_exchange_tombstones = t\<rparr>)))))"

text \<open>
  A concrete choice of the seven callables, for evaluating the parsers on concrete
  dictionaries. The stand-ins for the enum classes and for
  \<^verbatim>\<open>Utils.string_to_datetime\<close> accept a string and return it, and raise
  \<^verbatim>\<open>ValueError\<close> on anything else. The stand-in for \<^verbatim>\<open>Size.from_json\<close> reads the
  entries \<^verbatim>\<open>"SizeInBytes"\<close> and \<^verbatim>\<open>"HumaneSize"\<close> of its argument by subscript, so it
  raises \<^verbatim>\<open>TypeError\<close> on \<^verbatim>\<open>None\<close>, which has no subscript, and on every other value
  that is not a dictionary. The general theorems hold for every choice of the callables.
\<close>

definition accept_string :: "json \<Rightarrow> py_error + string option" where
  "accept_string v = (case v of JStr s \<Rightarrow> Inr (Some s) | _ \<Rightarrow> Inl ValueError)"

definition sample_Size_from_json :: "json \<Rightarrow> py_error + string option" where
  "sample_Size_from_json v =
     (case v of
        JDict json_dict \<Rightarrow>
          bind (dict_subscript json_dict ''SizeInBytes'') (\<lambda>size_in_bytes.
          bind (dict_subscript json_dict ''HumaneSize'') (\<lambda>human_size.
          Inr (Some ''Size'')))
      | _ \<Rightarrow> Inl TypeError)"

definition sample_externals :: "string externals" where
  "sample_externals =
     \<lparr>IndexLockMode = accept_string, IndexPriority = accept_string,
      IndexType = accept_string, IndexSourceType = accept_string,
      IndexState = accept_string, string_to_datetime = accept_string,
      Size_from_json = sample_Size_from_json\<rparr>"

section \<open>The subscription worker\<close>

text \<open>
  The worker (\<^verbatim>\<open>ravendb.documents.subscriptions.worker\<close>) and its options are
  not among the source files; only their test is
  (\<^verbatim>\<open>test_basic_subscription.py\<close>). This section models the worker from sections 3
  to 7 of the specification, as a machine that reacts to events: the calls of the
  application, the messages of the server and the failures of the transport. The
  server itself is not modelled: what it sends is an input.
\<close>

text \<open>Modelled from the spec: the opening strategies of \<^verbatim>\<open>SubscriptionWorkerOptions\<close> (section 3).\<close>

datatype SubscriptionOpeningStrategy = OpenIfFree | TakeOver | WaitForFree | ForceAndKeep

text \<open>
  Modelled from the spec: \<^verbatim>\<open>SubscriptionWorkerOptions\<close> (section 3), immutable for the
  life of one worker. Durations are natural numbers of a time unit.
\<close>

record SubscriptionWorkerOptions =
  subscription_name :: string
  strategy :: SubscriptionOpeningStrategy
  max_docs_per_batch :: nat
  ignore_subscriber_errors :: bool
  time_to_wait_before_connection_retry :: nat
  max_erroneous_period :: "nat option"

text \<open>
  Modelled from the spec: \<^verbatim>\<open>SubscriptionBatchItem\<close> and \<^verbatim>\<open>SubscriptionBatch\<close>
  (section 3). An item holds the deserialized document or the deserialization failure,
  never both (section 9).
\<close>

record 'o SubscriptionBatchItem =
  key :: string
  result :: "'o option"
  exception :: "string option"
  change_vector :: string

record 'o SubscriptionBatch =
  items :: "'o SubscriptionBatchItem list"

text \<open>Modelled from the spec: \<^verbatim>\<open>number_of_items_in_batch\<close> is the length of \<^verbatim>\<open>items\<close> (section 3).\<close>

definition number_of_items_in_batch :: "'o SubscriptionBatch \<Rightarrow> nat" where
  "number_of_items_in_batch batch = length (items batch)"

text \<open>
  Modelled from the spec: the messages of the network stream protocol (section 6).
  The server sends the outcome of the handshake, batches whose items carry a payload
  or an error, and termination signals; the client sends the handshake and
  acknowledgments.
\<close>

record wire_item =
  wire_key :: string
  wire_change_vector :: string
  wire_payload :: "string + json"

datatype termination_signal = SupersededByAnotherWorker | SubscriptionDisabledOrDeleted | TransportClose

datatype server_message =
    NegotiationSucceeded
  | NegotiationConflict
  | BatchMessage "wire_item list" bool
  | TerminationSignal termination_signal

datatype client_message =
    Handshake string SubscriptionOpeningStrategy nat
  | Acknowledge "string option"

text \<open>
  Modelled from the spec: the states of the worker (section 4.1), the terminal
  conditions of section 7 and the three terminal outcomes of the run handle
  (section 9).
\<close>

datatype worker_state =
  Idle | Connecting | StrategyNegotiation | Streaming | AcknowledgingBatch | Reconnecting | Closed | Faulted

datatype fatal_condition =
  SubscriptionInUse | SubscriptionNoLongerAvailable | SupersededWorker | ErroneousPeriodExceeded

datatype outcome = CleanStop | SubscriberError string | FatalCondition fatal_condition

text \<open>
  Modelled from the spec: the mutable \<^verbatim>\<open>SubscriptionWorker\<close> (section 3): its connection
  state, the change vector pending acknowledgment, the last acknowledged cursor, the
  completion handle of its run loop (unset while it runs), the erroneous period
  accumulated by consecutive transport failures, and the subscriber errors recorded
  under \<^verbatim>\<open>ignore_subscriber_errors\<close>.
\<close>

record SubscriptionWorker =
  options :: SubscriptionWorkerOptions
  worker_id :: nat
  state :: worker_state
  pending_acknowledgment :: "string option"
  last_acknowledged :: "string option"
  run_handle :: "outcome option"
  erroneous_period :: nat
  subscriber_errors :: "string list"

text \<open>
  Modelled from the spec: a worker built from its options is idle, has nothing pending
  and nothing acknowledged, and its run handle is unset (sections 3 and 4.1).
\<close>

definition new_worker :: "SubscriptionWorkerOptions \<Rightarrow> nat \<Rightarrow> SubscriptionWorker" where
  "new_worker opts wid =
     \<lparr>options = opts, worker_id = wid, state = Idle, pending_acknowledgment = None,
      last_acknowledged = None, run_handle = None, erroneous_period = 0,
      subscriber_errors = []\<rparr>"

text \<open>
  Modelled from the spec: the run handle is a result holder that is settable exactly
  once (section 9); the terminal exception a caller reads from it (section 5) is none
  after a clean stop.
\<close>

definition complete :: "outcome \<Rightarrow> outcome option \<Rightarrow> outcome option" where
  "complete out handle = (case handle of None \<Rightarrow> Some out | Some first \<Rightarrow> Some first)"

fun terminal_exception :: "outcome \<Rightarrow> outcome option" where
  "terminal_exception CleanStop = None"
| "terminal_exception (SubscriberError e) = Some (SubscriberError e)"
| "terminal_exception (FatalCondition c) = Some (FatalCondition c)"

text \<open>
  Modelled from the spec: what happens to a worker (sections 4.1, 5 and 6).
  \<open>Run\<close> and \<open>Close\<close> are the calls of the embedding
  application, \<open>Receive\<close> is a message of the server, \<open>TransportFailure\<close> a connection
  drop or timeout, and \<open>Proceed\<close> the worker's own next action going through (the
  connection opens, the acknowledgment is written, the retry wait elapses).
\<close>

datatype event = Run | Proceed | Receive server_message | TransportFailure | Close

text \<open>
  Modelled from the spec: what a run of the worker shows to the outside, in order
  (sections 5 and 6): the messages it sends and
  the handler invocations with their outcome (\<open>None\<close>: the handler returned normally).
\<close>

datatype 'o observation = Sent client_message | Invoked "'o SubscriptionBatch" "string option"

record ('o, 'h) run =
  worker :: SubscriptionWorker
  handler_state :: 'h
  trace :: "'o observation list"

text \<open>
  Modelled from the spec: an item of a batch message becomes an item of the batch;
  a payload is deserialized, and a failure is kept with the item (section 9).
\<close>

definition deserialize_item :: "(json \<Rightarrow> string + 'o) \<Rightarrow> wire_item \<Rightarrow> 'o SubscriptionBatchItem" where
  "deserialize_item deserialize it =
     (case wire_payload it of
        Inl err \<Rightarrow> \<lparr>key = wire_key it, result = None, exception = Some err,
                    change_vector = wire_change_vector it\<rparr>
      | Inr payload \<Rightarrow>
          (case deserialize payload of
             Inl err \<Rightarrow> \<lparr>key = wire_key it, result = None, exception = Some err,
                         change_vector = wire_change_vector it\<rparr>
           | Inr doc \<Rightarrow> \<lparr>key = wire_key it, result = Some doc, exception = None,
                         change_vector = wire_change_vector it\<rparr>))"

definition make_batch :: "(json \<Rightarrow> string + 'o) \<Rightarrow> wire_item list \<Rightarrow> 'o SubscriptionBatch" where
  "make_batch deserialize its = \<lparr>items = map (deserialize_item deserialize) its\<rparr>"

text \<open>
  Modelled from the spec: the change vector a batch is acknowledged with is that of
  its last item (section 4.1); a batch with no item leaves the cursor where it is.
\<close>

definition acknowledgment_point :: "SubscriptionWorker \<Rightarrow> 'o SubscriptionBatch \<Rightarrow> string option" where
  "acknowledgment_point w batch =
     (if items batch = [] then last_acknowledged w
      else Some (change_vector (last (items batch))))"

text \<open>
  Modelled from the spec: a fatal condition completes the run handle and is not
  retried; a transport failure is recoverable and drops what was pending
  (sections 4.1 and 7).
\<close>

definition fault :: "fatal_condition \<Rightarrow> SubscriptionWorker \<Rightarrow> SubscriptionWorker" where
  "fault c w = w\<lparr>state := Faulted, pending_acknowledgment := None,
                 run_handle := complete (FatalCondition c) (run_handle w)\<rparr>"

definition transport_failed :: "SubscriptionWorker \<Rightarrow> SubscriptionWorker" where
  "transport_failed w = w\<lparr>state := Reconnecting, pending_acknowledgment := None\<rparr>"

text \<open>
  Modelled from the spec: \<^verbatim>\<open>close()\<close> (section 4.1, Closed): it releases the
  connection and completes the run handle with no error unless the worker was already
  faulted; it is idempotent.
\<close>

definition close :: "SubscriptionWorker \<Rightarrow> SubscriptionWorker" where
  "close w =
     (if state w = Faulted then w
      else w\<lparr>state := Closed, pending_acknowledgment := None,
             run_handle := complete CleanStop (run_handle w)\<rparr>)"

text \<open>
  Modelled from the spec: a termination signal of the server (sections 4.1, 6 and 7).
  A generic transport close is a transport failure; disabling or deleting the
  subscription is terminal; a superseded worker is terminal unless its strategy is
  \<open>ForceAndKeep\<close>, which re-asserts ownership by connecting again.
\<close>

definition on_termination :: "termination_signal \<Rightarrow> SubscriptionWorker \<Rightarrow> SubscriptionWorker" where
  "on_termination sig w =
     (case sig of
        TransportClose \<Rightarrow> transport_failed w
      | SubscriptionDisabledOrDeleted \<Rightarrow> fault SubscriptionNoLongerAvailable w
      | SupersededByAnotherWorker \<Rightarrow>
          (if strategy (options w) = ForceAndKeep
           then w\<lparr>state := Connecting, pending_acknowledgment := None\<rparr>
           else fault SupersededWorker w))"

text \<open>
  Modelled from the spec: Reconnecting (section 4.1). The worker waits
  \<^verbatim>\<open>time_to_wait_before_connection_retry\<close>, which adds to the erroneous period; once
  the period exceeds \<^verbatim>\<open>max_erroneous_period\<close> the worker is faulted instead of
  connecting again.
\<close>

definition retry :: "SubscriptionWorker \<Rightarrow> SubscriptionWorker" where
  "retry w =
     (let period = erroneous_period w + time_to_wait_before_connection_retry (options w) in
      case max_erroneous_period (options w) of
        None \<Rightarrow> w\<lparr>state := Connecting, erroneous_period := period\<rparr>
      | Some bound \<Rightarrow>
          (if bound < period then fault ErroneousPeriodExceeded (w\<lparr>erroneous_period := period\<rparr>)
           else w\<lparr>state := Connecting, erroneous_period := period\<rparr>))"

text \<open>
  Modelled from the spec: Dispatch (section 4.1). The handler is invoked once with the
  batch. If it returns, or raises while \<^verbatim>\<open>ignore_subscriber_errors\<close> is set (the error
  is then recorded), the batch is to be acknowledged; otherwise the worker stops
  streaming, does not acknowledge, and its run handle completes with that error.
  The handler is a function of its own state (what its closure holds) and the batch.
\<close>

definition dispatch ::
  "('h \<Rightarrow> 'o SubscriptionBatch \<Rightarrow> 'h \<times> string option) \<Rightarrow> 'o SubscriptionBatch \<Rightarrow>
   ('o, 'h) run \<Rightarrow> ('o, 'h) run" where
  "dispatch handler batch r =
     (let w = worker r;
          (h', raised) = handler (handler_state r) batch;
          to_acknowledge = w\<lparr>state := AcknowledgingBatch,
                             pending_acknowledgment := acknowledgment_point w batch\<rparr>
      in case raised of
           None \<Rightarrow>
             \<lparr>worker = to_acknowledge, handler_state = h',
              trace = trace r @ [Invoked batch None]\<rparr>
         | Some err \<Rightarrow>
             (if ignore_subscriber_errors (options w)
              then \<lparr>worker = to_acknowledge\<lparr>subscriber_errors := subscriber_errors w @ [err]\<rparr>,
                    handler_state = h', trace = trace r @ [Invoked batch (Some err)]\<rparr>
              else \<lparr>worker = w\<lparr>state := Faulted,
                                run_handle := complete (SubscriberError err) (run_handle w)\<rparr>,
                    handler_state = h', trace = trace r @ [Invoked batch (Some err)]\<rparr>))"

text \<open>
  Modelled from the spec: a message of the server, by the state of the worker
  (section 4.1). The outcome of the negotiation is read in StrategyNegotiation; a
  batch is read in Streaming, where a heartbeat is acknowledged without a handler
  call; a termination signal is read in every connected state. Anything else is not
  expected in the state and is ignored.
\<close>

definition on_message ::
  "(json \<Rightarrow> string + 'o) \<Rightarrow> ('h \<Rightarrow> 'o SubscriptionBatch \<Rightarrow> 'h \<times> string option) \<Rightarrow>
   server_message \<Rightarrow> ('o, 'h) run \<Rightarrow> ('o, 'h) run" where
  "on_message deserialize handler msg r =
     (let w = worker r in
      case msg of
        NegotiationSucceeded \<Rightarrow>
          (if state w = StrategyNegotiation
           then r\<lparr>worker := w\<lparr>state := Streaming, erroneous_period := 0\<rparr>\<rparr> else r)
      | NegotiationConflict \<Rightarrow>
          (if state w = StrategyNegotiation
           then r\<lparr>worker := fault SubscriptionInUse w\<rparr> else r)
      | BatchMessage its heartbeat \<Rightarrow>
          (if state w = Streaming
           then (if heartbeat
                 then r\<lparr>worker := w\<lparr>state := AcknowledgingBatch,
                                     pending_acknowledgment := last_acknowledged w\<rparr>\<rparr>
                 else dispatch handler (make_batch deserialize its) r)
           else r)
      | TerminationSignal sig \<Rightarrow>
          (if state w \<in> {StrategyNegotiation, Streaming, AcknowledgingBatch}
           then r\<lparr>worker := on_termination sig w\<rparr> else r))"

text \<open>
  Modelled from the spec: the worker's own next action (section 4.1). Connecting
  opens the connection and sends the handshake; AcknowledgingBatch writes the
  acknowledgment, which becomes the last acknowledged cursor, and goes back to
  Streaming; Reconnecting retries.
\<close>

definition proceed :: "('o, 'h) run \<Rightarrow> ('o, 'h) run" where
  "proceed r =
     (let w = worker r in
      case state w of
        Connecting \<Rightarrow>
          r\<lparr>worker := w\<lparr>state := StrategyNegotiation\<rparr>,
            trace := trace r @ [Sent (Handshake (subscription_name (options w))
                                        (strategy (options w)) (worker_id w))]\<rparr>
      | AcknowledgingBatch \<Rightarrow>
          r\<lparr>worker := w\<lparr>state := Streaming, last_acknowledged := pending_acknowledgment w,
                          pending_acknowledgment := None\<rparr>,
            trace := trace r @ [Sent (Acknowledge (pending_acknowledgment w))]\<rparr>
      | Reconnecting \<Rightarrow> r\<lparr>worker := retry w\<rparr>
      | _ \<Rightarrow> r)"

text \<open>
  Modelled from the spec: one step of the worker (sections 4.1 and 5). \<^verbatim>\<open>run(handler)\<close>
  starts an idle worker; a transport failure in a connected or connecting state
  leads to Reconnecting; \<^verbatim>\<open>close()\<close> is accepted in every state.
\<close>

definition worker_step ::
  "(json \<Rightarrow> string + 'o) \<Rightarrow> ('h \<Rightarrow> 'o SubscriptionBatch \<Rightarrow> 'h \<times> string option) \<Rightarrow>
   event \<Rightarrow> ('o, 'h) run \<Rightarrow> ('o, 'h) run" where
  "worker_step deserialize handler ev r =
     (let w = worker r in
      case ev of
        Run \<Rightarrow> (if state w = Idle then r\<lparr>worker := w\<lparr>state := Connecting\<rparr>\<rparr> else r)
      | Proceed \<Rightarrow> proceed r
      | Receive msg \<Rightarrow> on_message deserialize handler msg r
      | TransportFailure \<Rightarrow>
          (if state w \<in> {Connecting, StrategyNegotiation, Streaming, AcknowledgingBatch}
           then r\<lparr>worker := transport_failed w\<rparr> else r)
      | Close \<Rightarrow> r\<lparr>worker := close w\<rparr>)"

text \<open>
  Modelled from the spec: a run of the worker over a sequence of events, from left to
  right, starting from a new worker and the initial state of the handler.
\<close>

fun worker_run ::
  "(json \<Rightarrow> string + 'o) \<Rightarrow> ('h \<Rightarrow> 'o SubscriptionBatch \<Rightarrow> 'h \<times> string option) \<Rightarrow>
   event list \<Rightarrow> ('o, 'h) run \<Rightarrow> ('o, 'h) run" where
  "worker_run deserialize handler [] r = r"
| "worker_run deserialize handler (ev # evs) r =
     worker_run deserialize handler evs (worker_step deserialize handler ev r)"

definition start :: "SubscriptionWorkerOptions \<Rightarrow> nat \<Rightarrow> 'h \<Rightarrow> ('o, 'h) run" where
  "start opts wid h = \<lparr>worker = new_worker opts wid, handler_state = h, trace = []\<rparr>"

text \<open>
  The events of a worker that is run, connects, wins the negotiation and then receives
  the given batch messages, each followed by the worker's next action.
\<close>

definition streaming_events :: "(wire_item list \<times> bool) list \<Rightarrow> event list" where
  "streaming_events msgs =
     [Run, Proceed, Receive NegotiationSucceeded] @
     concat (map (\<lambda>(its, heartbeat). [Receive (BatchMessage its heartbeat), Proceed]) msgs)"

text \<open>The batches the handler was invoked with, in order.\<close>

fun invoked_batches :: "'o observation list \<Rightarrow> 'o SubscriptionBatch list" where
  "invoked_batches [] = []"
| "invoked_batches (Invoked batch raised # obs) = batch # invoked_batches obs"
| "invoked_batches (Sent m # obs) = invoked_batches obs"

text \<open>
  Every handler invocation in the trace is directly followed by an acknowledgment,
  and a batch that has items is acknowledged with the change vector of its last item.
\<close>

fun every_invocation_acknowledged :: "'o observation list \<Rightarrow> bool" where
  "every_invocation_acknowledged [] = True"
| "every_invocation_acknowledged (Invoked batch raised # Sent (Acknowledge cv) # obs) =
     ((items batch = [] \<or> cv = Some (change_vector (last (items batch)))) \<and>
      every_invocation_acknowledged obs)"
| "every_invocation_acknowledged (Invoked batch raised # obs) = False"
| "every_invocation_acknowledged (Sent m # obs) = every_invocation_acknowledged obs"

section \<open>Properties of the statistics parsers\<close>

lemma bind_Inl [simp]: "bind (Inl e) f = Inl e"
  by (simp add: bind_def)

lemma bind_Inr [simp]: "bind (Inr v) f = f v"
  by (simp add: bind_def)

lemma bind_Inr_iff: "bind r f = Inr y \<longleftrightarrow> (\<exists>v. r = Inr v \<and> f v = Inr y)"
  by (cases r) simp_all

lemma dict_contains_delete [simp]:
  "dict_contains (AList.delete k d) k' = (k' \<noteq> k \<and> dict_contains d k')"
  by (auto simp: dict_contains_def delete_conv)

lemma dict_subscript_delete [simp]:
  "k' \<noteq> k \<Longrightarrow> dict_subscript (AList.delete k d) k' = dict_subscript d k'"
  by (simp add: dict_subscript_def delete_conv)

lemma dict_get_delete:
  "dict_get (AList.delete k d) k' = (if k' = k then JNull else dict_get d k')"
  by (simp add: dict_get_def delete_conv)

lemma dict_get_absent: "\<not> dict_contains d k \<Longrightarrow> dict_get d k = JNull"
  by (simp add: dict_get_def dict_contains_def)

lemma dict_subscript_absent: "\<not> dict_contains d k \<Longrightarrow> dict_subscript d k = Inl (KeyError k)"
  by (simp add: dict_subscript_def dict_contains_def)

lemma guarded_absent: "\<not> dict_contains d k \<Longrightarrow> guarded F d k = Inr None"
  by (simp add: guarded_def)

lemma guarded_delete:
  "guarded F (AList.delete k d) k' = (if k' = k then Inr None else guarded F d k')"
  by (simp add: guarded_def)

lemma IndexInformation_from_json_without_LockMode:
  "\<not> dict_contains d ''LockMode'' \<Longrightarrow>
   IndexInformation_from_json ext (JDict d) = Inl (KeyError ''LockMode'')"
  by (auto simp add: dict_subscript_def dict_contains_def)

lemma IndexInformation_from_json_absent:
  assumes "IndexInformation_from_json ext (JDict d) = Inr info"
  shows "(\<not> dict_contains d ''IsStale'' \<longrightarrow> stale info = JNull) \<and>
         (\<not> dict_contains d ''Priority'' \<longrightarrow> priority info = None) \<and>
         (\<not> dict_contains d ''Type'' \<longrightarrow> index_type info = None) \<and>
         (\<not> dict_contains d ''LastIndexingTime'' \<longrightarrow>
            IndexInformation.last_indexing_time info = None) \<and>
         (\<not> dict_contains d ''SourceType'' \<longrightarrow> source_type info = None) \<and>
         (\<not> dict_contains d ''State'' \<longrightarrow> index_state info = None) \<and>
         (\<not> dict_contains d ''Name'' \<longrightarrow> name info = JNull)"
  using assms by (auto simp: bind_Inr_iff guarded_absent split: if_splits)

lemma IndexInformation_from_json_delete:
  assumes "IndexInformation_from_json ext (JDict d) = Inr info" and "k \<noteq> ''LockMode''"
  shows "\<exists>info'. IndexInformation_from_json ext (JDict (AList.delete k d)) = Inr info'"
proof -
  from assms(1) obtain a1 a2 a3 a4 a5 a6 a7 a8 where a:
    "(if dict_contains d ''IsStale'' then dict_subscript d ''IsStale'' else Inr JNull) = Inr a1"
    "bind (dict_subscript d ''LockMode'') (IndexLockMode ext) = Inr a2"
    "guarded (IndexPriority ext) d ''Priority'' = Inr a3"
    "guarded (IndexType ext) d ''Type'' = Inr a4"
    "guarded (string_to_datetime ext) d ''LastIndexingTime'' = Inr a5"
    "guarded (IndexSourceType ext) d ''SourceType'' = Inr a6"
    "guarded (IndexState ext) d ''State'' = Inr a7"
    "(if dict_contains d ''Name'' then dict_subscript d ''Name'' else Inr JNull) = Inr a8"
    unfolding IndexInformation_from_json.simps bind_Inr_iff by blast
  have b1: "\<exists>b. (if dict_contains (AList.delete k d) ''IsStale''
                  then dict_subscript (AList.delete k d) ''IsStale'' else Inr JNull) = Inr b"
    using a(1) by (auto split: if_splits)
  have b2: "bind (dict_subscript (AList.delete k d) ''LockMode'') (IndexLockMode ext) = Inr a2"
    using a(2) assms(2) by simp
  have b8: "\<exists>b. (if dict_contains (AList.delete k d) ''Name''
                  then dict_subscript (AList.delete k d) ''Name'' else Inr JNull) = Inr b"
    using a(8) by (auto split: if_splits)
  have g: "\<exists>b. guarded F (AList.delete k d) k' = Inr b" if "guarded F d k' = Inr c"
    for F :: "json \<Rightarrow> py_error + 'a option" and k' c
    using that by (simp add: guarded_delete)
  from b1 b2 b8 g [OF a(3)] g [OF a(4)] g [OF a(5)] g [OF a(6)] g [OF a(7)]
  show ?thesis
    unfolding IndexInformation_from_json.simps bind_Inr_iff by blast
qed

text \<open>
  C10. \<^verbatim>\<open>IndexInformation.from_json\<close> raises \<^verbatim>\<open>KeyError\<close> for every input dictionary
  that lacks the key \<^verbatim>\<open>"LockMode"\<close>: that entry alone is read without a guard. The
  seven other entries (\<^verbatim>\<open>IsStale\<close>, \<^verbatim>\<open>Priority\<close>, \<^verbatim>\<open>Type\<close>, \<^verbatim>\<open>LastIndexingTime\<close>,
  \<^verbatim>\<open>SourceType\<close>, \<^verbatim>\<open>State\<close>, \<^verbatim>\<open>Name\<close>) are read behind a membership check: wherever
  the parser returns, the attribute of an absent entry is \<^verbatim>\<open>None\<close>, and taking any
  entry other than \<^verbatim>\<open>LockMode\<close> out of a dictionary the parser accepts never makes
  it raise.
\<close>

theorem IndexInformation_from_json_LockMode_unguarded:
  "(\<not> dict_contains d ''LockMode'' \<longrightarrow>
      IndexInformation_from_json ext (JDict d) = Inl (KeyError ''LockMode'')) \<and>
   (IndexInformation_from_json ext (JDict d) = Inr info \<longrightarrow>
      (\<not> dict_contains d ''IsStale'' \<longrightarrow> stale info = JNull) \<and>
      (\<not> dict_contains d ''Priority'' \<longrightarrow> priority info = None) \<and>
      (\<not> dict_contains d ''Type'' \<longrightarrow> index_type info = None) \<and>
      (\<not> dict_contains d ''LastIndexingTime'' \<longrightarrow>
         IndexInformation.last_indexing_time info = None) \<and>
      (\<not> dict_contains d ''SourceType'' \<longrightarrow> source_type info = None) \<and>
      (\<not> dict_contains d ''State'' \<longrightarrow> index_state info = None) \<and>
      (\<not> dict_contains d ''Name'' \<longrightarrow> name info = JNull) \<and>
      (\<forall>k. k \<noteq> ''LockMode'' \<longrightarrow>
         (\<exists>info'. IndexInformation_from_json ext (JDict (AList.delete k d)) = Inr info')))"
proof (intro conjI impI allI)
  assume "\<not> dict_contains d ''LockMode''"
  then show "IndexInformation_from_json ext (JDict d) = Inl (KeyError ''LockMode'')"
    by (rule IndexInformation_from_json_without_LockMode)
next
  fix k :: string
  assume "IndexInformation_from_json ext (JDict d) = Inr info" and "k \<noteq> ''LockMode''"
  then show "\<exists>info'. IndexInformation_from_json ext (JDict (AList.delete k d)) = Inr info'"
    by (rule IndexInformation_from_json_delete)
qed (use IndexInformation_from_json_absent [of ext d info] in blast)+

theorem IndexInformation_from_json_LockMode_witness:
  "\<not> dict_contains [(''Name'', JStr ''Orders/ByCompany''), (''IsStale'', JBool False)] ''LockMode'' \<and>
   IndexInformation_from_json sample_externals
     (JDict [(''Name'', JStr ''Orders/ByCompany''), (''IsStale'', JBool False)])
     = Inl (KeyError ''LockMode'') \<and>
   IndexInformation_from_json sample_externals
     (JDict [(''LockMode'', JStr ''Unlock''), (''Priority'', JStr ''Normal'')])
     = Inr \<lparr>stale = JNull, lock_mode = Some ''Unlock'', priority = Some ''Normal'',
            index_type = None, last_indexing_time = None, source_type = None,
            index_state = None, name = JNull\<rparr> \<and>
   \<not> dict_contains [(''LockMode'', JStr ''Unlock''), (''Priority'', JStr ''Normal'')] ''Type'' \<and>
   ''Priority'' \<noteq> ''LockMode'' \<and>
   (\<exists>info'. IndexInformation_from_json sample_externals
      (JDict (AList.delete ''Priority''
                [(''LockMode'', JStr ''Unlock''), (''Priority'', JStr ''Normal'')])) = Inr info')"
proof -
  let ?absent = "[(''Name'', JStr ''Orders/ByCompany''), (''IsStale'', JBool False)]"
  let ?present = "[(''LockMode'', JStr ''Unlock''), (''Priority'', JStr ''Normal'')]"
  let ?info = "\<lparr>stale = JNull, lock_mode = Some ''Unlock'', priority = Some ''Normal'',
            index_type = None, last_indexing_time = None, source_type = None,
            index_state = None, name = JNull\<rparr> :: string IndexInformation"
  have absent: "\<not> dict_contains ?absent ''LockMode''"
    by (simp add: dict_contains_def)
  have parsed: "IndexInformation_from_json sample_externals (JDict ?present) = Inr ?info"
    by (simp add: sample_externals_def accept_string_def guarded_def dict_contains_def
        dict_subscript_def)
  have no_type: "\<not> dict_contains ?present ''Type''"
    by (simp add: dict_contains_def)
  note a = IndexInformation_from_json_LockMode_unguarded [of ?absent sample_externals ?info]
  note p = IndexInformation_from_json_LockMode_unguarded [of ?present sample_externals ?info]
  have raised: "IndexInformation_from_json sample_externals (JDict ?absent) = Inl (KeyError ''LockMode'')"
    by (rule mp [OF conjunct1 [OF a] absent])
  have ne: "''Priority'' \<noteq> ''LockMode''"
    by simp
  have "\<forall>k. k \<noteq> ''LockMode'' \<longrightarrow>
         (\<exists>info'. IndexInformation_from_json sample_externals
            (JDict (AList.delete k ?present)) = Inr info')"
    using mp [OF conjunct2 [OF p] parsed] by (elim conjE)
  then have deleted: "\<exists>info'. IndexInformation_from_json sample_externals
          (JDict (AList.delete ''Priority'' ?present)) = Inr info'"
    using ne by (elim allE impE)
  show ?thesis
    by (intro conjI absent raised parsed no_type ne deleted)
qed

lemma indexes_argument_absent:
  "\<not> dict_contains d ''Indexes'' \<Longrightarrow> indexes_argument ext d = Inr None"
  by (simp add: indexes_argument_def)

lemma indexes_argument_delete:
  "indexes_argument ext (AList.delete k d) =
     (if k = ''Indexes'' then Inr None else indexes_argument ext d)"
  by (simp add: indexes_argument_def)

lemma last_indexing_time_argument_absent:
  "\<not> dict_contains d ''LastIndexingTime'' \<Longrightarrow> last_indexing_time_argument ext d = Inr None"
  by (simp add: last_indexing_time_argument_def dict_get_absent)

lemma last_indexing_time_argument_delete:
  "last_indexing_time_argument ext (AList.delete k d) =
     (if k = ''LastIndexingTime'' then Inr None else last_indexing_time_argument ext d)"
  by (simp add: last_indexing_time_argument_def dict_get_delete)

lemma DatabaseStatistics_from_json_Inr:
  assumes "DatabaseStatistics_from_json ext d = Inr s"
  shows "indexes_argument ext d = Inr (indexes s)"
    and "last_indexing_time_argument ext d = Inr (DatabaseStatistics.last_indexing_time s)"
    and "Size_from_json ext (dict_get d ''SizeOnDisk'') = Inr (size_on_disk s)"
    and "Size_from_json ext (dict_get d ''TempBuffersSizeOnDisk'') = Inr (temp_buffers_size_on_disk s)"
    and "last_doc_etag s = dict_get d ''LastDocEtag''"
    and "last_database_etag s = dict_get d ''LastDatabaseEtag''"
    and "count_of_indexes s = dict_get d ''CountOfIndexes''"
    and "count_of_documents s = dict_get d ''CountOfDocuments''"
    and "count_of_revision_documents s = dict_get d ''CountOfRevisionDocuments''"
    and "count_of_documents_conflicts s = dict_get d ''CountOfDocumentsConflicts''"
    and "count_of_tombstones s = dict_get d ''CountOfTombstones''"
    and "count_of_conflicts s = dict_get d ''CountOfConflicts''"
    and "count_of_attachments s = dict_get d ''CountOfAttachments''"
    and "count_of_unique_attachments s = dict_get d ''CountOfUniqueAttachments''"
    and "count_of_counter_entries s = dict_get d ''CountOfCounterEntries''"
    and "count_of_time_series_segments s = dict_get d ''CountOfTimeSeriesSegments''"
    and "database_change_vector s = dict_get d ''DatabaseChangeVector''"
    and "database_id s = dict_get d ''DatabaseId''"
    and "is_64_bit s = dict_get d ''Is64Bit''"
    and "pager s = dict_get d ''Pager''"
    and "number_of_transaction_merger_queue_operations s =
           dict_get d ''NumberOfTransactionMergerQueueOperations''"
  using assms unfolding DatabaseStatistics_from_json_def bind_Inr_iff by auto

lemma DatabaseStatistics_from_json_delete:
  assumes "DatabaseStatistics_from_json ext d = Inr s"
    and "k \<noteq> ''SizeOnDisk''" and "k \<noteq> ''TempBuffersSizeOnDisk''"
  shows "\<exists>s'. DatabaseStatistics_from_json ext (AList.delete k d) = Inr s'"
proof -
  note a = DatabaseStatistics_from_json_Inr(1-4) [OF assms(1)]
  have i: "\<exists>b. indexes_argument ext (AList.delete k d) = Inr b"
    using a(1) by (simp add: indexes_argument_delete)
  have l: "\<exists>b. last_indexing_time_argument ext (AList.delete k d) = Inr b"
    using a(2) by (simp add: last_indexing_time_argument_delete)
  have s1: "dict_get (AList.delete k d) ''SizeOnDisk'' = dict_get d ''SizeOnDisk''"
    using assms(2) by (simp add: dict_get_delete)
  have s2: "dict_get (AList.delete k d) ''TempBuffersSizeOnDisk'' =
            dict_get d ''TempBuffersSizeOnDisk''"
    using assms(3) by (simp add: dict_get_delete)
  from i l a(3,4) show ?thesis
    unfolding DatabaseStatistics_from_json_def s1 s2 by (auto simp: bind_Inr_iff)
qed

lemma DetailedDatabaseStatistics_from_json_base_error:
  "DatabaseStatistics_from_json ext d = Inl e \<Longrightarrow>
   DetailedDatabaseStatistics_from_json ext d = Inl e"
  by (simp add: DetailedDatabaseStatistics_from_json_def)

lemma DetailedDatabaseStatistics_from_json_KeyError:
  assumes "DatabaseStatistics_from_json ext d = Inr s"
    and "\<not> dict_contains d ''CountOfIdentities'' \<or>
         \<not> dict_contains d ''CountOfCompareExchange'' \<or>
         \<not> dict_contains d ''CountOfCompareExchangeTombstones''"
  shows "DetailedDatabaseStatistics_from_json ext d =
         Inl (KeyError (if \<not> dict_contains d ''CountOfIdentities'' then ''CountOfIdentities''
                        else if \<not> dict_contains d ''CountOfCompareExchange''
                             then ''CountOfCompareExchange''
                             else ''CountOfCompareExchangeTombstones''))"
  using assms
  by (auto simp: DetailedDatabaseStatistics_from_json_def dict_subscript_def dict_contains_def)

text \<open>
  C9, as amended. For every input dictionary that lacks one of the keys
  \<^verbatim>\<open>"CountOfIdentities"\<close>, \<^verbatim>\<open>"CountOfCompareExchange"\<close> and
  \<^verbatim>\<open>"CountOfCompareExchangeTombstones"\<close>, \<^verbatim>\<open>DetailedDatabaseStatistics.from_json\<close>
  raises: the error of \<^verbatim>\<open>DatabaseStatistics.from_json\<close> when that one raises on the
  dictionary, and otherwise, also when every base entry is present, \<^verbatim>\<open>KeyError\<close>
  for the first of the three keys that is absent. Wherever \<^verbatim>\<open>DatabaseStatistics.from_json\<close> returns, the attribute of an
  absent entry is \<^verbatim>\<open>None\<close> for each of the nineteen entries other than
  \<^verbatim>\<open>SizeOnDisk\<close> and \<^verbatim>\<open>TempBuffersSizeOnDisk\<close> (the seventeen read with \<^verbatim>\<open>get\<close>
  alone, \<^verbatim>\<open>Indexes\<close> and \<^verbatim>\<open>LastIndexingTime\<close>), and taking any entry other than
  those two out of a dictionary it accepts never makes it raise. Nothing is stated
  about an absent \<^verbatim>\<open>SizeOnDisk\<close> or \<^verbatim>\<open>TempBuffersSizeOnDisk\<close>.
\<close>

theorem DetailedDatabaseStatistics_from_json_missing_key:
  "((\<not> dict_contains d ''CountOfIdentities'' \<or>
     \<not> dict_contains d ''CountOfCompareExchange'' \<or>
     \<not> dict_contains d ''CountOfCompareExchangeTombstones'') \<longrightarrow>
      DetailedDatabaseStatistics_from_json ext d =
        (case DatabaseStatistics_from_json ext d of
           Inl e \<Rightarrow> Inl e
         | Inr s \<Rightarrow>
             Inl (KeyError
               (if \<not> dict_contains d ''CountOfIdentities'' then ''CountOfIdentities''
                else if \<not> dict_contains d ''CountOfCompareExchange''
                     then ''CountOfCompareExchange''
                     else ''CountOfCompareExchangeTombstones'')))) \<and>
   (DatabaseStatistics_from_json ext d = Inr s \<longrightarrow>
      (\<not> dict_contains d ''LastDocEtag'' \<longrightarrow> last_doc_etag s = JNull) \<and>
      (\<not> dict_contains d ''LastDatabaseEtag'' \<longrightarrow> last_database_etag s = JNull) \<and>
      (\<not> dict_contains d ''CountOfIndexes'' \<longrightarrow> count_of_indexes s = JNull) \<and>
      (\<not> dict_contains d ''CountOfDocuments'' \<longrightarrow> count_of_documents s = JNull) \<and>
      (\<not> dict_contains d ''CountOfRevisionDocuments'' \<longrightarrow>
         count_of_revision_documents s = JNull) \<and>
      (\<not> dict_contains d ''CountOfDocumentsConflicts'' \<longrightarrow>
         count_of_documents_conflicts s = JNull) \<and>
      (\<not> dict_contains d ''CountOfTombstones'' \<longrightarrow> count_of_tombstones s = JNull) \<and>
      (\<not> dict_contains d ''CountOfConflicts'' \<longrightarrow> count_of_conflicts s = JNull) \<and>
      (\<not> dict_contains d ''CountOfAttachments'' \<longrightarrow> count_of_attachments s = JNull) \<and>
      (\<not> dict_contains d ''CountOfUniqueAttachments'' \<longrightarrow>
         count_of_unique_attachments s = JNull) \<and>
      (\<not> dict_contains d ''CountOfCounterEntries'' \<longrightarrow> count_of_counter_entries s = JNull) \<and>
      (\<not> dict_contains d ''CountOfTimeSeriesSegments'' \<longrightarrow>
         count_of_time_series_segments s = JNull) \<and>
      (\<not> dict_contains d ''Indexes'' \<longrightarrow> indexes s = None) \<and>
      (\<not> dict_contains d ''DatabaseChangeVector'' \<longrightarrow> database_change_vector s = JNull) \<and>
      (\<not> dict_contains d ''DatabaseId'' \<longrightarrow> database_id s = JNull) \<and>
      (\<not> dict_contains d ''Is64Bit'' \<longrightarrow> is_64_bit s = JNull) \<and>
      (\<not> dict_contains d ''Pager'' \<longrightarrow> pager s = JNull) \<and>
      (\<not> dict_contains d ''LastIndexingTime'' \<longrightarrow>
         DatabaseStatistics.last_indexing_time s = None) \<and>
      (\<not> dict_contains d ''NumberOfTransactionMergerQueueOperations'' \<longrightarrow>
         number_of_transaction_merger_queue_operations s = JNull) \<and>
      (\<forall>k. k \<noteq> ''SizeOnDisk'' \<and> k \<noteq> ''TempBuffersSizeOnDisk'' \<longrightarrow>
         (\<exists>s'. DatabaseStatistics_from_json ext (AList.delete k d) = Inr s')))"
proof (intro conjI impI allI)
  assume missing: "\<not> dict_contains d ''CountOfIdentities'' \<or>
     \<not> dict_contains d ''CountOfCompareExchange'' \<or>
     \<not> dict_contains d ''CountOfCompareExchangeTombstones''"
  show "DetailedDatabaseStatistics_from_json ext d =
        (case DatabaseStatistics_from_json ext d of
           Inl e \<Rightarrow> Inl e
         | Inr s \<Rightarrow>
             Inl (KeyError
               (if \<not> dict_contains d ''CountOfIdentities'' then ''CountOfIdentities''
                else if \<not> dict_contains d ''CountOfCompareExchange''
                     then ''CountOfCompareExchange''
                     else ''CountOfCompareExchangeTombstones'')))"
  proof (cases "DatabaseStatistics_from_json ext d")
    case (Inl e)
    then show ?thesis
      by (simp add: DetailedDatabaseStatistics_from_json_base_error)
  next
    case (Inr s')
    from DetailedDatabaseStatistics_from_json_KeyError [OF Inr missing] Inr
    show ?thesis by simp
  qed
next
  fix k :: string
  assume "DatabaseStatistics_from_json ext d = Inr s"
    and "k \<noteq> ''SizeOnDisk'' \<and> k \<noteq> ''TempBuffersSizeOnDisk''"
  then show "\<exists>s'. DatabaseStatistics_from_json ext (AList.delete k d) = Inr s'"
    by (simp add: DatabaseStatistics_from_json_delete)
next
  assume "DatabaseStatistics_from_json ext d = Inr s" and "\<not> dict_contains d ''Indexes''"
  then show "indexes s = None"
    using DatabaseStatistics_from_json_Inr(1) [of ext d s] by (simp add: indexes_argument_absent)
next
  assume "DatabaseStatistics_from_json ext d = Inr s" and "\<not> dict_contains d ''LastIndexingTime''"
  then show "DatabaseStatistics.last_indexing_time s = None"
    using DatabaseStatistics_from_json_Inr(2) [of ext d s]
    by (simp add: last_indexing_time_argument_absent)
qed (simp_all add: DatabaseStatistics_from_json_Inr dict_get_absent)

theorem DetailedDatabaseStatistics_from_json_witness:
  "\<not> dict_contains
     [(''CountOfIdentities'', JNum 3), (''CountOfCompareExchange'', JNum 0),
      (''CountOfDocuments'', JNum 1059),
      (''SizeOnDisk'', JDict [(''HumaneSize'', JStr ''1 KBytes''), (''SizeInBytes'', JNum 1024)]),
      (''TempBuffersSizeOnDisk'',
         JDict [(''HumaneSize'', JStr ''0 Bytes''), (''SizeInBytes'', JNum 0)])] ''CountOfCompareExchangeTombstones'' \<and>
   DatabaseStatistics_from_json sample_externals
     [(''CountOfIdentities'', JNum 3), (''CountOfCompareExchange'', JNum 0),
      (''CountOfDocuments'', JNum 1059),
      (''SizeOnDisk'', JDict [(''HumaneSize'', JStr ''1 KBytes''), (''SizeInBytes'', JNum 1024)]),
      (''TempBuffersSizeOnDisk'',
         JDict [(''HumaneSize'', JStr ''0 Bytes''), (''SizeInBytes'', JNum 0)])]
     = Inr \<lparr>last_doc_etag = JNull, last_database_etag = JNull, count_of_indexes = JNull,
            count_of_documents = JNum 1059, count_of_revision_documents = JNull,
            count_of_documents_conflicts = JNull, count_of_tombstones = JNull,
            count_of_conflicts = JNull, count_of_attachments = JNull,
            count_of_unique_attachments = JNull, count_of_counter_entries = JNull,
            count_of_time_series_segments = JNull, indexes = None,
            database_change_vector = JNull, database_id = JNull, is_64_bit = JNull,
            pager = JNull, last_indexing_time = None, size_on_disk = Some ''Size'',
            temp_buffers_size_on_disk = Some ''Size'',
            number_of_transaction_merger_queue_operations = JNull\<rparr> \<and>
   \<not> dict_contains
     [(''CountOfIdentities'', JNum 3), (''CountOfCompareExchange'', JNum 0),
      (''CountOfDocuments'', JNum 1059),
      (''SizeOnDisk'', JDict [(''HumaneSize'', JStr ''1 KBytes''), (''SizeInBytes'', JNum 1024)]),
      (''TempBuffersSizeOnDisk'',
         JDict [(''HumaneSize'', JStr ''0 Bytes''), (''SizeInBytes'', JNum 0)])] ''LastDocEtag'' \<and>
   DetailedDatabaseStatistics_from_json sample_externals
     [(''CountOfIdentities'', JNum 3), (''CountOfCompareExchange'', JNum 0),
      (''CountOfDocuments'', JNum 1059),
      (''SizeOnDisk'', JDict [(''HumaneSize'', JStr ''1 KBytes''), (''SizeInBytes'', JNum 1024)]),
      (''TempBuffersSizeOnDisk'',
         JDict [(''HumaneSize'', JStr ''0 Bytes''), (''SizeInBytes'', JNum 0)])]
     = Inl (KeyError ''CountOfCompareExchangeTombstones'') \<and>
   (\<exists>s'. DatabaseStatistics_from_json sample_externals
      (AList.delete ''CountOfDocuments''
     [(''CountOfIdentities'', JNum 3), (''CountOfCompareExchange'', JNum 0),
      (''CountOfDocuments'', JNum 1059),
      (''SizeOnDisk'', JDict [(''HumaneSize'', JStr ''1 KBytes''), (''SizeInBytes'', JNum 1024)]),
      (''TempBuffersSizeOnDisk'',
         JDict [(''HumaneSize'', JStr ''0 Bytes''), (''SizeInBytes'', JNum 0)])]) = Inr s')"
proof -
  let ?d = "[(''CountOfIdentities'', JNum 3), (''CountOfCompareExchange'', JNum 0),
      (''CountOfDocuments'', JNum 1059),
      (''SizeOnDisk'', JDict [(''HumaneSize'', JStr ''1 KBytes''), (''SizeInBytes'', JNum 1024)]),
      (''TempBuffersSizeOnDisk'',
         JDict [(''HumaneSize'', JStr ''0 Bytes''), (''SizeInBytes'', JNum 0)])]"
  let ?s = "\<lparr>last_doc_etag = JNull, last_database_etag = JNull, count_of_indexes = JNull,
            count_of_documents = JNum 1059, count_of_revision_documents = JNull,
            count_of_documents_conflicts = JNull, count_of_tombstones = JNull,
            count_of_conflicts = JNull, count_of_attachments = JNull,
            count_of_unique_attachments = JNull, count_of_counter_entries = JNull,
            count_of_time_series_segments = JNull, indexes = None,
            database_change_vector = JNull, database_id = JNull, is_64_bit = JNull,
            pager = JNull, last_indexing_time = None, size_on_disk = Some ''Size'',
            temp_buffers_size_on_disk = Some ''Size'',
            number_of_transaction_merger_queue_operations = JNull\<rparr> :: string DatabaseStatistics"
  have absent: "\<not> dict_contains ?d ''CountOfCompareExchangeTombstones''"
    by (simp add: dict_contains_def)
  have no_etag: "\<not> dict_contains ?d ''LastDocEtag''"
    by (simp add: dict_contains_def)
  have present: "dict_contains ?d ''CountOfIdentities''" "dict_contains ?d ''CountOfCompareExchange''"
    by (simp_all add: dict_contains_def)
  have base: "DatabaseStatistics_from_json sample_externals ?d = Inr ?s"
    by (simp add: DatabaseStatistics_from_json_def indexes_argument_def
        last_indexing_time_argument_def sample_externals_def sample_Size_from_json_def
        dict_contains_def dict_get_def dict_subscript_def)
  note inst = DetailedDatabaseStatistics_from_json_missing_key [of ?d sample_externals ?s]
  have missing: "\<not> dict_contains ?d ''CountOfIdentities'' \<or>
     \<not> dict_contains ?d ''CountOfCompareExchange'' \<or>
     \<not> dict_contains ?d ''CountOfCompareExchangeTombstones''"
    using absent by (intro disjI2)
  have raised: "DetailedDatabaseStatistics_from_json sample_externals ?d
                = Inl (KeyError ''CountOfCompareExchangeTombstones'')"
    using mp [OF conjunct1 [OF inst] missing] present unfolding base by simp
  have ne: "''CountOfDocuments'' \<noteq> ''SizeOnDisk'' \<and> ''CountOfDocuments'' \<noteq> ''TempBuffersSizeOnDisk''"
    by simp
  have "\<forall>k. k \<noteq> ''SizeOnDisk'' \<and> k \<noteq> ''TempBuffersSizeOnDisk'' \<longrightarrow>
         (\<exists>s'. DatabaseStatistics_from_json sample_externals (AList.delete k ?d) = Inr s')"
    using mp [OF conjunct2 [OF inst] base] by (elim conjE)
  then have deleted: "\<exists>s'. DatabaseStatistics_from_json sample_externals
      (AList.delete ''CountOfDocuments'' ?d) = Inr s'"
    using ne by (elim allE impE)
  show ?thesis
    by (intro conjI absent base no_etag raised deleted)
qed

text \<open>
  C9 as stated fails in both halves. A dictionary that lacks all three keys and whose
  \<^verbatim>\<open>"Indexes"\<close> entry is \<^verbatim>\<open>null\<close> makes \<^verbatim>\<open>DetailedDatabaseStatistics.from_json\<close>
  raise \<^verbatim>\<open>TypeError\<close> (line 87 iterates over \<^verbatim>\<open>None\<close>), not \<^verbatim>\<open>KeyError\<close>, whatever the
  callables are. And \<^verbatim>\<open>DatabaseStatistics.from_json\<close> does not map every absent
  entry to \<^verbatim>\<open>None\<close>: on the empty dictionary lines 93 and 94 pass the default
  \<^verbatim>\<open>None\<close> of \<^verbatim>\<open>get\<close> to \<^verbatim>\<open>Size.from_json\<close>, and with a \<^verbatim>\<open>Size.from_json\<close> that
  subscripts its argument the parser raises \<^verbatim>\<open>TypeError\<close>.
\<close>

theorem DetailedDatabaseStatistics_from_json_counterexample:
  "\<not> dict_contains [(''Indexes'', JNull)] ''CountOfIdentities'' \<and>
   DetailedDatabaseStatistics_from_json sample_externals [(''Indexes'', JNull)] = Inl TypeError \<and>
   DetailedDatabaseStatistics_from_json sample_externals [(''Indexes'', JNull)]
     \<noteq> Inl (KeyError ''CountOfIdentities'') \<and>
   \<not> dict_contains [] ''SizeOnDisk'' \<and>
   DatabaseStatistics_from_json sample_externals [] = Inl TypeError"
  by (simp add: DetailedDatabaseStatistics_from_json_def DatabaseStatistics_from_json_def
      indexes_argument_def last_indexing_time_argument_def dict_contains_def dict_subscript_def
      dict_get_def sample_externals_def sample_Size_from_json_def)

section \<open>Properties of the subscription worker\<close>

lemma complete_simps [simp]:
  "complete out None = Some out" "complete out (Some first) = Some first"
  by (simp_all add: complete_def)

lemma complete_not_subscriber_error:
  "handle \<noteq> Some (SubscriberError e) \<Longrightarrow> out \<noteq> SubscriberError e \<Longrightarrow>
   complete out handle \<noteq> Some (SubscriberError e)"
  by (cases handle) auto

lemma worker_step_options [simp]:
  "options (worker (worker_step deserialize handler ev r)) = options (worker r)"
  by (auto simp: worker_step_def proceed_def on_message_def dispatch_def on_termination_def
      fault_def transport_failed_def close_def retry_def Let_def
      split: event.splits worker_state.splits server_message.splits termination_signal.splits
        option.splits prod.splits)

lemma worker_step_never_subscriber_error:
  assumes "ignore_subscriber_errors (options (worker r))"
    and "run_handle (worker r) \<noteq> Some (SubscriberError e)"
  shows "run_handle (worker (worker_step deserialize handler ev r)) \<noteq> Some (SubscriberError e)"
  using assms
  by (auto simp: worker_step_def proceed_def on_message_def dispatch_def on_termination_def
      fault_def transport_failed_def close_def retry_def Let_def complete_not_subscriber_error
      split: event.splits worker_state.splits server_message.splits termination_signal.splits
        option.splits prod.splits)

lemma worker_run_never_subscriber_error:
  assumes "ignore_subscriber_errors (options (worker r))"
    and "run_handle (worker r) \<noteq> Some (SubscriberError e)"
  shows "run_handle (worker (worker_run deserialize handler evs r)) \<noteq> Some (SubscriberError e)"
  using assms
proof (induction evs arbitrary: r)
  case Nil
  then show ?case by simp
next
  case (Cons ev evs)
  show ?case
    unfolding worker_run.simps
    by (rule Cons.IH) (simp_all add: Cons.prems worker_step_never_subscriber_error)
qed

lemma worker_run_append:
  "worker_run deserialize handler (evs @ evs') r =
   worker_run deserialize handler evs' (worker_run deserialize handler evs r)"
  by (induction evs arbitrary: r) simp_all

lemma invoked_batches_append:
  "invoked_batches (obs @ obs') = invoked_batches obs @ invoked_batches obs'"
  by (induction obs rule: invoked_batches.induct) simp_all

lemma every_invocation_acknowledged_append:
  "every_invocation_acknowledged obs \<Longrightarrow>
   every_invocation_acknowledged (obs @ obs') = every_invocation_acknowledged obs'"
  by (induction obs rule: every_invocation_acknowledged.induct) simp_all

text \<open>
  One batch message and the worker's next action, in a streaming worker that ignores
  subscriber errors and whose handler always raises.
\<close>

lemma streaming_round:
  fixes handler :: "'h \<Rightarrow> 'o SubscriptionBatch \<Rightarrow> 'h \<times> string option"
    and deserialize :: "json \<Rightarrow> string + 'o" and its :: "wire_item list" and heartbeat :: bool
    and r :: "('o, 'h) run"
  assumes ign: "ignore_subscriber_errors (options (worker r))"
    and raises: "\<forall>h batch. snd (handler h batch) \<noteq> None"
    and st: "state (worker r) = Streaming"
    and unset: "run_handle (worker r) = None"
    and ack: "every_invocation_acknowledged (trace r)"
    and errs: "length (subscriber_errors (worker r)) = length (invoked_batches (trace r))"
  defines "r' \<equiv> worker_step deserialize handler Proceed
                  (worker_step deserialize handler (Receive (BatchMessage its heartbeat)) r)"
  shows "state (worker r') = Streaming \<and> run_handle (worker r') = None \<and>
         every_invocation_acknowledged (trace r') \<and>
         invoked_batches (trace r') =
           invoked_batches (trace r) @ (if heartbeat then [] else [make_batch deserialize its]) \<and>
         length (subscriber_errors (worker r')) = length (invoked_batches (trace r'))"
proof (cases heartbeat)
  case True
  then show ?thesis
    using st unset ack errs unfolding r'_def
    by (simp add: worker_step_def on_message_def proceed_def Let_def
        every_invocation_acknowledged_append invoked_batches_append)
next
  case False
  obtain h' err where h: "handler (handler_state r) (make_batch deserialize its) = (h', Some err)"
    using raises by (metis option.exhaust_sel prod.collapse)
  show ?thesis
    using False st unset ack errs ign h unfolding r'_def
    by (simp add: worker_step_def on_message_def proceed_def dispatch_def Let_def
        acknowledgment_point_def every_invocation_acknowledged_append invoked_batches_append)
qed

lemma streaming_rounds:
  fixes handler :: "'h \<Rightarrow> 'o SubscriptionBatch \<Rightarrow> 'h \<times> string option"
    and deserialize :: "json \<Rightarrow> string + 'o" and r :: "('o, 'h) run"
  assumes "ignore_subscriber_errors (options (worker r))"
    and "\<forall>h batch. snd (handler h batch) \<noteq> None"
    and "state (worker r) = Streaming"
    and "run_handle (worker r) = None"
    and "every_invocation_acknowledged (trace r)"
    and "length (subscriber_errors (worker r)) = length (invoked_batches (trace r))"
  defines "evs \<equiv> \<lambda>msgs. concat (map (\<lambda>(its, heartbeat). [Receive (BatchMessage its heartbeat), Proceed]) msgs)"
  shows "state (worker (worker_run deserialize handler (evs msgs) r)) = Streaming \<and>
         run_handle (worker (worker_run deserialize handler (evs msgs) r)) = None \<and>
         every_invocation_acknowledged (trace (worker_run deserialize handler (evs msgs) r)) \<and>
         invoked_batches (trace (worker_run deserialize handler (evs msgs) r)) =
           invoked_batches (trace r) @
           map (\<lambda>m. make_batch deserialize (fst m)) (filter (\<lambda>m. \<not> snd m) msgs) \<and>
         length (subscriber_errors (worker (worker_run deserialize handler (evs msgs) r))) =
           length (invoked_batches (trace (worker_run deserialize handler (evs msgs) r)))"
  using assms(1,3-6)
proof (induction msgs arbitrary: r)
  case Nil
  then show ?case by (simp add: evs_def)
next
  case (Cons m msgs)
  obtain its heartbeat where m: "m = (its, heartbeat)" by (cases m)
  let ?r = "worker_step deserialize handler Proceed
              (worker_step deserialize handler (Receive (BatchMessage its heartbeat)) r)"
  have step: "worker_run deserialize handler (evs (m # msgs)) r =
              worker_run deserialize handler (evs msgs) ?r"
    by (simp add: evs_def m)
  have round: "state (worker ?r) = Streaming \<and> run_handle (worker ?r) = None \<and>
         every_invocation_acknowledged (trace ?r) \<and>
         invoked_batches (trace ?r) =
           invoked_batches (trace r) @ (if heartbeat then [] else [make_batch deserialize its]) \<and>
         length (subscriber_errors (worker ?r)) = length (invoked_batches (trace ?r))"
    by (rule streaming_round) (use Cons.prems assms(2) in simp_all)
  have opts: "ignore_subscriber_errors (options (worker ?r))"
    using Cons.prems(1) by simp
  from Cons.IH [OF opts] round
  show ?case unfolding step by (simp add: m)
qed

text \<open>
  C1 (on the model of the specification). For a worker started with
  \<^verbatim>\<open>ignore_subscriber_errors = true\<close> whose handler raises on every invocation:
  whatever events follow, the run handle never completes with a subscriber error;
  and when the worker is run, wins the negotiation and receives any sequence of
  batch messages, it is streaming afterwards with an unset run handle, the handler
  was invoked once with every batch that is not a heartbeat, in order, every
  invocation was directly followed by the acknowledgment of that batch, every error
  was recorded, and after \<^verbatim>\<open>close()\<close> the run handle is complete and its terminal
  exception is none.
\<close>

theorem ignore_subscriber_errors_acknowledges_every_batch:
  fixes handler :: "'h \<Rightarrow> 'o SubscriptionBatch \<Rightarrow> 'h \<times> string option"
    and deserialize :: "json \<Rightarrow> string + 'o" and initial :: 'h
  assumes "ignore_subscriber_errors opts"
    and "\<forall>h batch. snd (handler h batch) \<noteq> None"
  shows "(\<forall>evs err. run_handle (worker (worker_run deserialize handler evs (start opts wid initial)))
            \<noteq> Some (SubscriberError err)) \<and>
         (let r = worker_run deserialize handler (streaming_events msgs) (start opts wid initial) in
            state (worker r) = Streaming \<and> run_handle (worker r) = None \<and>
            invoked_batches (trace r) =
              map (\<lambda>m. make_batch deserialize (fst m)) (filter (\<lambda>m. \<not> snd m) msgs) \<and>
            every_invocation_acknowledged (trace r) \<and>
            length (subscriber_errors (worker r)) = length (invoked_batches (trace r)) \<and>
            map_option terminal_exception
              (run_handle (worker (worker_step deserialize handler Close r))) = Some None)"
proof -
  let ?s = "start opts wid initial :: ('o, 'h) run"
  have never: "run_handle (worker (worker_run deserialize handler evs ?s)) \<noteq> Some (SubscriberError err)"
    for evs err
    by (rule worker_run_never_subscriber_error) (simp_all add: start_def new_worker_def assms(1))
  let ?ra = "worker_run deserialize handler [Run, Proceed, Receive NegotiationSucceeded] ?s"
  let ?evs = "concat (map (\<lambda>(its, heartbeat). [Receive (BatchMessage its heartbeat), Proceed]) msgs)"
  let ?r = "worker_run deserialize handler ?evs ?ra"
  have ra: "ignore_subscriber_errors (options (worker ?ra))" "state (worker ?ra) = Streaming"
    "run_handle (worker ?ra) = None" "every_invocation_acknowledged (trace ?ra)"
    "length (subscriber_errors (worker ?ra)) = length (invoked_batches (trace ?ra))"
    "invoked_batches (trace ?ra) = []"
    by (simp_all add: start_def new_worker_def assms(1) worker_step_def proceed_def
        on_message_def Let_def)
  have rounds: "state (worker ?r) = Streaming \<and> run_handle (worker ?r) = None \<and>
         every_invocation_acknowledged (trace ?r) \<and>
         invoked_batches (trace ?r) =
           invoked_batches (trace ?ra) @
           map (\<lambda>m. make_batch deserialize (fst m)) (filter (\<lambda>m. \<not> snd m) msgs) \<and>
         length (subscriber_errors (worker ?r)) = length (invoked_batches (trace ?r))"
    by (rule streaming_rounds [OF ra(1) assms(2) ra(2-5)])
  have whole: "worker_run deserialize handler (streaming_events msgs) ?s = ?r"
    unfolding streaming_events_def worker_run_append ..
  have closed: "map_option terminal_exception
      (run_handle (worker (worker_step deserialize handler Close ?r))) = Some None"
    using rounds by (simp add: worker_step_def close_def)
  from never rounds closed show ?thesis
    unfolding whole Let_def ra(6) by simp
qed

theorem ignore_subscriber_errors_witness:
  "ignore_subscriber_errors
     \<lparr>subscription_name = ''Users'', strategy = OpenIfFree, max_docs_per_batch = 25,
      ignore_subscriber_errors = True, time_to_wait_before_connection_retry = 5,
      max_erroneous_period = None\<rparr> \<and>
   (\<forall>h batch. snd ((\<lambda>docs b. (docs @ map result (items b), Some ''Fake error'')) h
      (batch :: json SubscriptionBatch)) \<noteq> None) \<and>
   (let r = worker_run Inr (\<lambda>docs b. (docs @ map result (items b), Some ''Fake error''))
              (streaming_events
                 [([\<lparr>wire_key = ''users/1-A'', wire_change_vector = ''A:1'', wire_payload = Inr (JDict [])\<rparr>,
                    \<lparr>wire_key = ''users/2-A'', wire_change_vector = ''A:2'', wire_payload = Inr (JDict [])\<rparr>],
                   False),
                  ([], True)])
              (start \<lparr>subscription_name = ''Users'', strategy = OpenIfFree, max_docs_per_batch = 25,
                      ignore_subscriber_errors = True, time_to_wait_before_connection_retry = 5,
                      max_erroneous_period = None\<rparr> 1 [])
    in state (worker r) = Streaming \<and> run_handle (worker r) = None \<and>
       length (invoked_batches (trace r)) = 1 \<and>
       every_invocation_acknowledged (trace r) \<and>
       last_acknowledged (worker r) = Some ''A:2'' \<and>
       subscriber_errors (worker r) = [''Fake error''] \<and>
       handler_state r = [Some (JDict []), Some (JDict [])] \<and>
       run_handle (worker (worker_step Inr (\<lambda>docs b. (docs @ map result (items b), Some ''Fake error'')) Close r))
         = Some CleanStop)"
proof -
  let ?opts = "\<lparr>subscription_name = ''Users'', strategy = OpenIfFree, max_docs_per_batch = 25,
      ignore_subscriber_errors = True, time_to_wait_before_connection_retry = 5,
      max_erroneous_period = None\<rparr>"
  let ?handler = "\<lambda>docs (b :: json SubscriptionBatch). (docs @ map result (items b), Some ''Fake error'')"
  have h1: "ignore_subscriber_errors ?opts" by simp
  have h2: "\<forall>h batch. snd (?handler h batch) \<noteq> None" by simp
  let ?msgs = "[([\<lparr>wire_key = ''users/1-A'', wire_change_vector = ''A:1'', wire_payload = Inr (JDict [])\<rparr>,
                    \<lparr>wire_key = ''users/2-A'', wire_change_vector = ''A:2'', wire_payload = Inr (JDict [])\<rparr>],
                   False),
                  ([], True)]"
  let ?des = "Inr :: json \<Rightarrow> string + json"
  let ?init = "[] :: json option list"
  note inst = ignore_subscriber_errors_acknowledges_every_batch
      [OF h1 h2, of ?des 1 ?init ?msgs]
  have ev: "last_acknowledged (worker (worker_run ?des ?handler (streaming_events ?msgs)
              (start ?opts 1 ?init))) = Some ''A:2''"
    by (simp add: streaming_events_def start_def new_worker_def worker_step_def proceed_def
        on_message_def dispatch_def make_batch_def deserialize_item_def acknowledgment_point_def
        Let_def)
  show ?thesis
    using inst ev
    apply (simp add: Let_def)
    apply (simp add: streaming_events_def start_def new_worker_def worker_step_def proceed_def
        on_message_def dispatch_def make_batch_def deserialize_item_def acknowledgment_point_def
        close_def Let_def)
    done
qed

end
